theory Spec2Isabelle
  imports Main
begin

section \<open>The documentation-build hooks of developers.esphome.io\<close>

text \<open>
  The repository holds two MkDocs hooks:
  \<^item> \<^verbatim>\<open>hooks/comments-toc.py\<close>, function \<^verbatim>\<open>on_page_content(html, page, config, files)\<close>;
  \<^item> \<^verbatim>\<open>hooks/copyright.py\<close>, function \<^verbatim>\<open>on_config(config, **kwargs)\<close>.

  Both mutate an object handed in by MkDocs and return \<^verbatim>\<open>None\<close>. The embedding passes the
  state explicitly: each hook is a function from the objects before the call to the objects
  after it.
\<close>

subsection \<open>Python values and their truth value\<close>

text \<open>
  The values a page's front matter can hold: null, booleans, integers, strings, sequences
  and mappings (floating-point numbers and dates are left out). \<open>truthy\<close> is Python's
  \<^verbatim>\<open>bool(v)\<close>, which \<^verbatim>\<open>not v\<close> negates.
\<close>

datatype pyval =
    PyNone
  | PyBool bool
  | PyInt int
  | PyStr string
  | PyList "pyval list"
  | PyDict "(string \<times> pyval) list"

fun truthy :: "pyval \<Rightarrow> bool" where
  "truthy PyNone = False"
| "truthy (PyBool b) = b"
| "truthy (PyInt i) = (i \<noteq> 0)"
| "truthy (PyStr s) = (s \<noteq> [])"
| "truthy (PyList vs) = (vs \<noteq> [])"
| "truthy (PyDict kvs) = (kvs \<noteq> [])"

text \<open>\<^verbatim>\<open>d.get(k)\<close>: the value stored under \<open>k\<close>, and \<^verbatim>\<open>None\<close> when there is none.\<close>

definition dict_get :: "(string \<rightharpoonup> pyval) \<Rightarrow> string \<Rightarrow> pyval" where
  "dict_get d k = (case d k of None \<Rightarrow> PyNone | Some v \<Rightarrow> v)"

subsection \<open>The table of contents\<close>

text \<open>
  A heading entry carries a title, an anchor identifier, a nesting level and its child
  entries. The table of contents is a tree: MkDocs builds every entry afresh from the page's
  headings, so no entry is shared between two places of it.
\<close>

datatype AnchorLink =
  Entry (title: string) (id': string) (level: int) (children: "AnchorLink list")

text \<open>
  Modelled from the spec: the constructor call \<^verbatim>\<open>AnchorLink(title, id, level)\<close>. The class is
  imported from \<^verbatim>\<open>mkdocs.structure.toc\<close> and is not part of the sources; the spec's data model
  says that a newly constructed entry has an empty child sequence.
\<close>

definition AnchorLink :: "string \<Rightarrow> string \<Rightarrow> int \<Rightarrow> AnchorLink" where
  "AnchorLink t i l = Entry t i l []"

text \<open>\<^verbatim>\<open>a.children.append(c)\<close>: the entry \<open>a\<close> after the call.\<close>

definition children_append :: "AnchorLink \<Rightarrow> AnchorLink \<Rightarrow> AnchorLink" where
  "children_append a c = Entry (title a) (id' a) (level a) (children a @ [c])"

record TableOfContents =
  items :: "AnchorLink list"

text \<open>
  Modelled from the spec: the truth value of a \<^verbatim>\<open>TableOfContents\<close> object, a class of MkDocs
  that is not part of the sources. The spec counts a table of contents with no top-level
  entries as empty.
\<close>

definition bool_toc :: "'a TableOfContents_scheme \<Rightarrow> bool" where
  "bool_toc t = (length (items t) \<noteq> 0)"

subsection \<open>The page and the post-content hook\<close>

text \<open>
  \<open>toc\<close> is \<open>None\<close> when the page has no table of contents; \<open>meta\<close> is the front matter.
  Every other attribute of a page lives in the record's extension.
\<close>

record Page =
  toc :: "TableOfContents option"
  meta :: "string \<rightharpoonup> pyval"

text \<open>The four objects the hook is called with, as they are when it returns.\<close>

record ('h, 'p, 'c, 'f) hook_objects =
  html_after :: 'h
  page_after :: 'p
  config_after :: 'c
  files_after :: 'f

text \<open>
  \<^verbatim>\<open>
  def on_page_content(html, page, config, files):
      if not page.toc or not page.toc.items or not page.meta.get("comments"):
          return
      page.toc.items[0].children.append(AnchorLink("Comments", "comments", 2))
  \<close>
  The three tests are evaluated left to right, so \<^verbatim>\<open>page.toc.items\<close> is read only when
  \<^verbatim>\<open>page.toc\<close> is there. In the last line \<^verbatim>\<open>items[0]\<close> exists, since the list is not empty.
\<close>

definition on_page_content ::
  "'h \<Rightarrow> 'p Page_scheme \<Rightarrow> 'c \<Rightarrow> 'f \<Rightarrow> ('h, 'p Page_scheme, 'c, 'f) hook_objects" where
  "on_page_content html page config files =
     (case toc page of
        None \<Rightarrow>
          \<lparr>html_after = html, page_after = page, config_after = config, files_after = files\<rparr>
      | Some t \<Rightarrow>
          if \<not> bool_toc t \<or> items t = [] \<or> \<not> truthy (dict_get (meta page) ''comments'')
          then \<lparr>html_after = html, page_after = page, config_after = config,
                 files_after = files\<rparr>
          else \<lparr>html_after = html,
                 page_after = page\<lparr>toc := Some (t\<lparr>items :=
                   (items t)[0 := children_append (items t ! 0)
                                     (AnchorLink ''Comments'' ''comments'' 2)]\<rparr>)\<rparr>,
                 config_after = config, files_after = files\<rparr>)"

subsection \<open>Rendering an integer\<close>

text \<open>
  A replacement field of an f-string with no format specification renders an \<^verbatim>\<open>int\<close> as
  \<^verbatim>\<open>str\<close> does: decimal digits, most significant first, no padding, a minus sign before a
  negative number.
\<close>

definition digit_char :: "nat \<Rightarrow> char" where
  "digit_char d = char_of (48 + d)"

fun str_nat :: "nat \<Rightarrow> string" where
  "str_nat n =
     (if n < 10 then [digit_char n] else str_nat (n div 10) @ [digit_char (n mod 10)])"

definition str_int :: "int \<Rightarrow> string" where
  "str_int i = (if i < 0 then CHR ''-'' # str_nat (nat (- i)) else str_nat (nat i))"

text \<open>Reading a decimal numeral back; used to state what \<open>str_int\<close> produces.\<close>

definition digit_val :: "char \<Rightarrow> nat" where
  "digit_val c = of_char c - 48"

definition read_nat :: "string \<Rightarrow> nat" where
  "read_nat s = foldl (\<lambda>a c. 10 * a + digit_val c) 0 s"

definition read_int :: "string \<Rightarrow> int" where
  "read_int s =
     (case s of
        [] \<Rightarrow> 0
      | c # cs \<Rightarrow> if c = CHR ''-'' then - int (read_nat cs) else int (read_nat s))"

subsection \<open>The clock, the site configuration and the configuration hook\<close>

text \<open>
  What \<^verbatim>\<open>datetime.now()\<close> returns. The hook reads the host clock; the embedding takes the
  reading as the argument \<open>now\<close>.
\<close>

record datetime =
  year :: int
  month :: int
  day :: int
  hour :: int
  minute :: int
  second :: int
  microsecond :: int

text \<open>
  \<open>copyright\<close> is \<open>None\<close> while the option is not set. Every other option of the
  configuration lives in the record's extension.
\<close>

record Config =
  copyright :: "string option"

text \<open>
  \<^verbatim>\<open>
  def on_config(config, **kwargs):
      config.copyright = f'Copyright (c) {datetime.now().year} ESPHome - A project from the
        <a target="_blank" href="https://www.openhomefoundation.org/">Open Home Foundation</a>'
  \<close>
  where \<^verbatim>\<open>(c)\<close> stands for the copyright sign U+00A9 and the string is on one line. A
  \<open>char\<close> of the model is one code point of the Python string; the copyright sign is
  \<open>CHR 0xA9\<close>.
\<close>

definition on_config ::
  "datetime \<Rightarrow> 'a Config_scheme \<Rightarrow> (string \<rightharpoonup> 'k) \<Rightarrow> 'a Config_scheme" where
  "on_config now config kwargs =
     config\<lparr>copyright := Some (''Copyright '' @ [CHR 0xA9] @ '' '' @ str_int (year now) @
       '' ESPHome - A project from the <a target=\"_blank\" href=\"https://www.openhomefoundation.org/\">Open Home Foundation</a>'')\<rparr>"

text \<open>
  The copyright template as the spec gives it, with the text that stands for \<^verbatim>\<open>{YEAR}\<close> as
  its argument.
\<close>

definition spec_copyright_template :: "string \<Rightarrow> string" where
  "spec_copyright_template y =
     ''Copyright '' @ [CHR 0xA9] @ '' '' @ y @ '' ESPHome - A project from the '' @
     ''<a target=\"_blank\" href=\"https://www.openhomefoundation.org/\">'' @
     ''Open Home Foundation'' @ ''</a>''"

subsection \<open>Example inputs\<close>

text \<open>Concrete pages and clock readings, on which the theorems below are instantiated.\<close>

definition example_page :: Page where
  "example_page =
     \<lparr>toc = Some \<lparr>items =
        [Entry ''Setup'' ''setup'' 1 [Entry ''Install'' ''install'' 2 []],
         Entry ''Usage'' ''usage'' 1 []]\<rparr>,
      meta = [''comments'' \<mapsto> PyBool True]\<rparr>"

definition example_page_no_toc :: Page where
  "example_page_no_toc = \<lparr>toc = None, meta = [''comments'' \<mapsto> PyBool True]\<rparr>"

definition example_page_empty_toc :: Page where
  "example_page_empty_toc =
     \<lparr>toc = Some \<lparr>items = []\<rparr>, meta = [''comments'' \<mapsto> PyBool True]\<rparr>"

definition example_page_no_comments :: Page where
  "example_page_no_comments =
     \<lparr>toc = Some \<lparr>items = [Entry ''Usage'' ''usage'' 1 []]\<rparr>,
      meta = [''title'' \<mapsto> PyStr ''Usage'', ''comments'' \<mapsto> PyBool False]\<rparr>"

definition example_now :: datetime where
  "example_now =
     \<lparr>year = 2024, month = 11, day = 4, hour = 16, minute = 19, second = 0,
      microsecond = 0\<rparr>"

definition example_later :: datetime where
  "example_later =
     \<lparr>year = 2024, month = 12, day = 31, hour = 23, minute = 59, second = 59,
      microsecond = 999999\<rparr>"

definition example_next_year :: datetime where
  "example_next_year =
     \<lparr>year = 2025, month = 1, day = 1, hour = 0, minute = 0, second = 0, microsecond = 0\<rparr>"

section \<open>Properties of the integer rendering\<close>

declare str_nat.simps [simp del]

lemma of_char_digit_char: "d < 10 \<Longrightarrow> of_char (digit_char d) = 48 + d"
  by (simp add: digit_char_def)

lemma digit_val_digit_char: "d < 10 \<Longrightarrow> digit_val (digit_char d) = d"
  by (simp add: digit_val_def of_char_digit_char)

lemma digit_char_not_minus: "d < 10 \<Longrightarrow> digit_char d \<noteq> CHR ''-''"
proof
  assume d: "d < 10" and eq: "digit_char d = CHR ''-''"
  have "(of_char (digit_char d) :: nat) = of_char (CHR ''-'')"
    using eq by simp
  with d show False
    by (simp add: of_char_digit_char)
qed

lemma read_nat_snoc: "read_nat (s @ [c]) = 10 * read_nat s + digit_val c"
  by (simp add: read_nat_def)

text \<open>Reading back what \<open>str_nat\<close> wrote gives the number: the digits are the right ones.\<close>

lemma read_nat_str_nat: "read_nat (str_nat n) = n"
proof (induction n rule: str_nat.induct)
  case (1 n)
  show ?case
  proof (cases "n < 10")
    case True
    then show ?thesis
      by (simp add: str_nat.simps [of n] read_nat_def digit_val_digit_char)
  next
    case False
    then have "read_nat (str_nat n) =
        10 * read_nat (str_nat (n div 10)) + digit_val (digit_char (n mod 10))"
      by (simp add: str_nat.simps [of n] read_nat_snoc)
    also have "\<dots> = 10 * (n div 10) + n mod 10"
      using 1 False by (simp add: digit_val_digit_char)
    finally show ?thesis by simp
  qed
qed

lemma str_nat_no_minus: "CHR ''-'' \<notin> set (str_nat n)"
proof (induction n rule: str_nat.induct)
  case (1 n)
  show ?case
  proof (cases "n < 10")
    case True
    then show ?thesis
      using digit_char_not_minus [of n] by (auto simp add: str_nat.simps [of n])
  next
    case False
    then show ?thesis
      using 1 digit_char_not_minus [of "n mod 10"] by (auto simp add: str_nat.simps [of n])
  qed
qed

lemma str_nat_not_Nil: "str_nat n \<noteq> []"
  by (simp add: str_nat.simps [of n])

lemma read_int_str_int: "read_int (str_int i) = i"
proof (cases "i < 0")
  case True
  then show ?thesis
    by (simp add: read_int_def str_int_def read_nat_str_nat)
next
  case False
  obtain c cs where s: "str_nat (nat i) = c # cs"
    using str_nat_not_Nil [of "nat i"] by (cases "str_nat (nat i)") auto
  have "c \<noteq> CHR ''-''"
    using str_nat_no_minus [of "nat i"] s by auto
  moreover have "read_nat (c # cs) = nat i"
    using read_nat_str_nat [of "nat i"] s by simp
  ultimately show ?thesis
    using False s by (simp add: read_int_def str_int_def)
qed

text \<open>Two different integers are never rendered alike.\<close>

lemma str_int_inject: "str_int i = str_int j \<Longrightarrow> i = j"
  by (metis read_int_str_int)

lemma str_int_2024: "str_int 2024 = ''2024''"
  by code_simp

section \<open>The post-content hook\<close>

text \<open>
  \<^verbatim>\<open>page.meta.get("comments")\<close> is true exactly when the front matter stores a true value
  under the key.
\<close>

lemma truthy_dict_get: "truthy (dict_get d k) \<longleftrightarrow> (\<exists>v. d k = Some v \<and> truthy v)"
  by (cases "d k") (simp_all add: dict_get_def)

text \<open>What the hook does to a page that passes all three tests.\<close>

lemma on_page_content_qualifying:
  assumes "toc page = Some t" and "items t = first # rest"
    and "truthy (dict_get (meta page) ''comments'')"
  shows "on_page_content html page config files =
     \<lparr>html_after = html,
      page_after = page\<lparr>toc := Some (t\<lparr>items :=
        children_append first (AnchorLink ''Comments'' ''comments'' 2) # rest\<rparr>)\<rparr>,
      config_after = config, files_after = files\<rparr>"
  using assms by (simp add: on_page_content_def bool_toc_def)

text \<open>
  Claim C2. On a page whose table of contents has at least one top-level entry and whose
  front matter stores a true value under \<^verbatim>\<open>comments\<close>, the hook appends exactly one entry to the
  end of the children of the first top-level entry: the children afterwards are the children
  before followed by \<^verbatim>\<open>AnchorLink("Comments", "comments", 2)\<close>, one more than before, and the
  last of them has title \<^verbatim>\<open>Comments\<close>, anchor \<^verbatim>\<open>comments\<close> and level 2.
\<close>

theorem on_page_content_appends_comments:
  assumes "toc page = Some t" and "items t = first # rest"
    and "meta page ''comments'' = Some v" and "truthy v"
  shows "\<exists>t'. toc (page_after (on_page_content html page config files)) = Some t' \<and>
      items t' \<noteq> [] \<and>
      children (hd (items t')) = children first @ [AnchorLink ''Comments'' ''comments'' 2] \<and>
      length (children (hd (items t'))) = length (children first) + 1 \<and>
      title (last (children (hd (items t')))) = ''Comments'' \<and>
      id' (last (children (hd (items t')))) = ''comments'' \<and>
      level (last (children (hd (items t')))) = 2"
proof -
  have c: "truthy (dict_get (meta page) ''comments'')"
    using assms(3,4) by (simp add: truthy_dict_get)
  show ?thesis
    by (simp add: on_page_content_qualifying [OF assms(1,2) c] children_append_def
        AnchorLink_def)
qed

theorem on_page_content_appends_comments_witness:
  "toc example_page = Some \<lparr>items =
        [Entry ''Setup'' ''setup'' 1 [Entry ''Install'' ''install'' 2 []],
         Entry ''Usage'' ''usage'' 1 []]\<rparr> \<and>
   meta example_page ''comments'' = Some (PyBool True) \<and> truthy (PyBool True) \<and>
   toc (page_after (on_page_content ''<h1>Setup</h1>'' example_page () ())) = Some \<lparr>items =
        [Entry ''Setup'' ''setup'' 1
           [Entry ''Install'' ''install'' 2 [], Entry ''Comments'' ''comments'' 2 []],
         Entry ''Usage'' ''usage'' 1 []]\<rparr>"
  using on_page_content_appends_comments [where page = example_page
      and t = "\<lparr>items = [Entry ''Setup'' ''setup'' 1 [Entry ''Install'' ''install'' 2 []],
        Entry ''Usage'' ''usage'' 1 []]\<rparr>"
      and first = "Entry ''Setup'' ''setup'' 1 [Entry ''Install'' ''install'' 2 []]"
      and rest = "[Entry ''Usage'' ''usage'' 1 []]" and v = "PyBool True"
      and html = "''<h1>Setup</h1>''" and config = "()" and files = "()"]
  by (simp add: example_page_def dict_get_def on_page_content_def bool_toc_def
      children_append_def AnchorLink_def)

text \<open>
  Claim C3. When the page has no table of contents, or the table of contents has no top-level
  entry, or the front matter stores no true value under \<^verbatim>\<open>comments\<close>, the hook returns at once:
  the page, its table of contents and front matter included, is as it was, and so are the
  other three arguments.
\<close>

theorem on_page_content_noop:
  assumes "toc page = None \<or> (\<exists>t. toc page = Some t \<and> items t = [])
    \<or> \<not> (\<exists>v. meta page ''comments'' = Some v \<and> truthy v)"
  shows "on_page_content html page config files =
     \<lparr>html_after = html, page_after = page, config_after = config, files_after = files\<rparr>"
  using assms
  by (auto simp add: on_page_content_def truthy_dict_get split: option.splits)

theorem on_page_content_noop_witness:
  "toc example_page_no_toc = None \<and>
   page_after (on_page_content ''<p>a</p>'' example_page_no_toc () ()) = example_page_no_toc \<and>
   toc example_page_empty_toc = Some \<lparr>items = []\<rparr> \<and>
   page_after (on_page_content ''<p>a</p>'' example_page_empty_toc () ())
     = example_page_empty_toc \<and>
   meta example_page_no_comments ''comments'' = Some (PyBool False) \<and>
   page_after (on_page_content ''<p>a</p>'' example_page_no_comments () ())
     = example_page_no_comments"
proof -
  have a: "toc example_page_no_toc = None"
    by (simp add: example_page_no_toc_def)
  have b: "toc example_page_empty_toc = Some \<lparr>items = []\<rparr>"
    by (simp add: example_page_empty_toc_def)
  have c: "meta example_page_no_comments ''comments'' = Some (PyBool False)"
    by (simp add: example_page_no_comments_def)
  show ?thesis
    using a b c
      on_page_content_noop [of example_page_no_toc "''<p>a</p>''" "()" "()"]
      on_page_content_noop [of example_page_empty_toc "''<p>a</p>''" "()" "()"]
      on_page_content_noop [of example_page_no_comments "''<p>a</p>''" "()" "()"]
    by simp
qed

text \<open>
  Claim C4. When the hook appends, nothing but the child list of the first top-level entry
  changes: the top-level entries after the first are the same entries in the same order, their
  number is the same, the first entry keeps its title, anchor and level, its children from
  before are still there, in their order, at the front of its child list, and the front matter
  and every other attribute of the page are unchanged.
\<close>

theorem on_page_content_frame:
  assumes "toc page = Some t" and "items t = first # rest"
    and "meta page ''comments'' = Some v" and "truthy v"
  shows "\<exists>t' first'. toc (page_after (on_page_content html page config files)) = Some t' \<and>
      items t' = first' # rest \<and>
      length (items t') = length (items t) \<and>
      title first' = title first \<and> id' first' = id' first \<and> level first' = level first \<and>
      take (length (children first)) (children first') = children first \<and>
      meta (page_after (on_page_content html page config files)) = meta page \<and>
      Page.more (page_after (on_page_content html page config files)) = Page.more page"
proof -
  have c: "truthy (dict_get (meta page) ''comments'')"
    using assms(3,4) by (simp add: truthy_dict_get)
  show ?thesis
    using assms(2)
    by (simp add: on_page_content_qualifying [OF assms(1,2) c] children_append_def)
qed

theorem on_page_content_frame_witness:
  "toc example_page = Some \<lparr>items =
        [Entry ''Setup'' ''setup'' 1 [Entry ''Install'' ''install'' 2 []],
         Entry ''Usage'' ''usage'' 1 []]\<rparr> \<and>
   meta example_page ''comments'' = Some (PyBool True) \<and> truthy (PyBool True) \<and>
   (\<exists>t' first'.
      toc (page_after (on_page_content ''<h1>Setup</h1>'' example_page () ())) = Some t' \<and>
      items t' = [first', Entry ''Usage'' ''usage'' 1 []] \<and>
      title first' = ''Setup'' \<and> id' first' = ''setup'' \<and> level first' = 1 \<and>
      take 1 (children first') = [Entry ''Install'' ''install'' 2 []]) \<and>
   meta (page_after (on_page_content ''<h1>Setup</h1>'' example_page () ())) = meta example_page"
  using on_page_content_frame [where page = example_page
      and t = "\<lparr>items = [Entry ''Setup'' ''setup'' 1 [Entry ''Install'' ''install'' 2 []],
        Entry ''Usage'' ''usage'' 1 []]\<rparr>"
      and first = "Entry ''Setup'' ''setup'' 1 [Entry ''Install'' ''install'' 2 []]"
      and rest = "[Entry ''Usage'' ''usage'' 1 []]" and v = "PyBool True"
      and html = "''<h1>Setup</h1>''" and config = "()" and files = "()"]
  by (simp add: example_page_def dict_get_def on_page_content_def bool_toc_def
      children_append_def AnchorLink_def)

text \<open>
  Claim C5. The hook is not idempotent. Called twice on a qualifying page (the second call on
  the page as the first call left it, with any other arguments), it appends the entry twice:
  the children of the first top-level entry are the children before followed by two equal
  \<^verbatim>\<open>Comments\<close> entries, two more than before.
\<close>

theorem on_page_content_twice:
  assumes "toc page = Some t" and "items t = first # rest"
    and "meta page ''comments'' = Some v" and "truthy v"
  shows "\<exists>t'. toc (page_after (on_page_content html2
        (page_after (on_page_content html1 page config1 files1)) config2 files2)) = Some t' \<and>
      items t' \<noteq> [] \<and>
      children (hd (items t')) =
        children first @
          [AnchorLink ''Comments'' ''comments'' 2, AnchorLink ''Comments'' ''comments'' 2] \<and>
      length (children (hd (items t'))) = length (children first) + 2"
proof -
  let ?c = "AnchorLink ''Comments'' ''comments'' 2"
  let ?t1 = "t\<lparr>items := children_append first ?c # rest\<rparr>"
  let ?p1 = "page\<lparr>toc := Some ?t1\<rparr>"
  have c: "truthy (dict_get (meta page) ''comments'')"
    using assms(3,4) by (simp add: truthy_dict_get)
  have first_call: "page_after (on_page_content html1 page config1 files1) = ?p1"
    by (simp add: on_page_content_qualifying [OF assms(1,2) c])
  have "toc ?p1 = Some ?t1" and "items ?t1 = children_append first ?c # rest"
    and "truthy (dict_get (meta ?p1) ''comments'')"
    using c by simp_all
  then have "on_page_content html2 ?p1 config2 files2 =
      \<lparr>html_after = html2,
       page_after = ?p1\<lparr>toc := Some (?t1\<lparr>items :=
         children_append (children_append first ?c) ?c # rest\<rparr>)\<rparr>,
       config_after = config2, files_after = files2\<rparr>"
    by (rule on_page_content_qualifying)
  then show ?thesis
    by (simp add: first_call children_append_def)
qed

theorem on_page_content_twice_witness:
  "toc example_page = Some \<lparr>items =
        [Entry ''Setup'' ''setup'' 1 [Entry ''Install'' ''install'' 2 []],
         Entry ''Usage'' ''usage'' 1 []]\<rparr> \<and>
   meta example_page ''comments'' = Some (PyBool True) \<and> truthy (PyBool True) \<and>
   toc (page_after (on_page_content ''<h1>Setup</h1>''
        (page_after (on_page_content ''<h1>Setup</h1>'' example_page () ())) () ()))
     = Some \<lparr>items =
        [Entry ''Setup'' ''setup'' 1
           [Entry ''Install'' ''install'' 2 [], Entry ''Comments'' ''comments'' 2 [],
            Entry ''Comments'' ''comments'' 2 []],
         Entry ''Usage'' ''usage'' 1 []]\<rparr>"
  using on_page_content_twice [where page = example_page
      and t = "\<lparr>items = [Entry ''Setup'' ''setup'' 1 [Entry ''Install'' ''install'' 2 []],
        Entry ''Usage'' ''usage'' 1 []]\<rparr>"
      and first = "Entry ''Setup'' ''setup'' 1 [Entry ''Install'' ''install'' 2 []]"
      and rest = "[Entry ''Usage'' ''usage'' 1 []]" and v = "PyBool True"
      and ?html1.0 = "''<h1>Setup</h1>''" and ?config1.0 = "()" and ?files1.0 = "()"
      and ?html2.0 = "''<h1>Setup</h1>''" and ?config2.0 = "()" and ?files2.0 = "()"]
  by (simp add: example_page_def dict_get_def on_page_content_def bool_toc_def
      children_append_def AnchorLink_def)

text \<open>
  Claim C8. The entry the hook appends is newly constructed, so it has no children: right
  after the append, the last child of the first top-level entry has an empty child list.
\<close>

theorem appended_entry_has_no_children:
  assumes "toc page = Some t" and "items t = first # rest"
    and "meta page ''comments'' = Some v" and "truthy v"
  shows "children (AnchorLink ''Comments'' ''comments'' 2) = [] \<and>
    (\<exists>t'. toc (page_after (on_page_content html page config files)) = Some t' \<and>
      items t' \<noteq> [] \<and> children (hd (items t')) \<noteq> [] \<and>
      children (last (children (hd (items t')))) = [])"
proof -
  have c: "truthy (dict_get (meta page) ''comments'')"
    using assms(3,4) by (simp add: truthy_dict_get)
  show ?thesis
    by (simp add: on_page_content_qualifying [OF assms(1,2) c] children_append_def
        AnchorLink_def)
qed

theorem appended_entry_has_no_children_witness:
  "toc example_page = Some \<lparr>items =
        [Entry ''Setup'' ''setup'' 1 [Entry ''Install'' ''install'' 2 []],
         Entry ''Usage'' ''usage'' 1 []]\<rparr> \<and>
   meta example_page ''comments'' = Some (PyBool True) \<and> truthy (PyBool True) \<and>
   (\<exists>t'. toc (page_after (on_page_content ''<h1>Setup</h1>'' example_page () ())) = Some t' \<and>
      last (children (hd (items t'))) = Entry ''Comments'' ''comments'' 2 [] \<and>
      children (last (children (hd (items t')))) = [])"
  using appended_entry_has_no_children [where page = example_page
      and t = "\<lparr>items = [Entry ''Setup'' ''setup'' 1 [Entry ''Install'' ''install'' 2 []],
        Entry ''Usage'' ''usage'' 1 []]\<rparr>"
      and first = "Entry ''Setup'' ''setup'' 1 [Entry ''Install'' ''install'' 2 []]"
      and rest = "[Entry ''Usage'' ''usage'' 1 []]" and v = "PyBool True"
      and html = "''<h1>Setup</h1>''" and config = "()" and files = "()"]
  by (simp add: example_page_def dict_get_def on_page_content_def bool_toc_def
      children_append_def AnchorLink_def)

text \<open>
  Claim C9. What the hook does depends on the page alone: two calls on equal pages leave equal
  pages, whatever the \<^verbatim>\<open>html\<close>, \<^verbatim>\<open>config\<close> and \<^verbatim>\<open>files\<close> arguments are, and these three arguments
  are after the call what they were before it.
\<close>

theorem on_page_content_reads_only_page:
  "page_after (on_page_content html1 page config1 files1) =
     page_after (on_page_content html2 page config2 files2) \<and>
   html_after (on_page_content html1 page config1 files1) = html1 \<and>
   config_after (on_page_content html1 page config1 files1) = config1 \<and>
   files_after (on_page_content html1 page config1 files1) = files1"
  by (simp add: on_page_content_def split: option.splits)

theorem on_page_content_reads_only_page_witness:
  "page_after (on_page_content ''<h1>Setup</h1>'' example_page
       \<lparr>copyright = None\<rparr> [''index.md'']) =
     page_after (on_page_content ''<p>other</p>'' example_page
       \<lparr>copyright = Some ''x''\<rparr> [''a.md'', ''b.md'']) \<and>
   html_after (on_page_content ''<h1>Setup</h1>'' example_page
       \<lparr>copyright = None\<rparr> [''index.md'']) = ''<h1>Setup</h1>'' \<and>
   config_after (on_page_content ''<h1>Setup</h1>'' example_page
       \<lparr>copyright = None\<rparr> [''index.md'']) = \<lparr>copyright = None\<rparr> \<and>
   files_after (on_page_content ''<h1>Setup</h1>'' example_page
       \<lparr>copyright = None\<rparr> [''index.md'']) = [''index.md'']"
  using on_page_content_reads_only_page [of "''<h1>Setup</h1>''" example_page
      "\<lparr>copyright = None\<rparr>" "[''index.md'']" "''<p>other</p>''"
      "\<lparr>copyright = Some ''x''\<rparr>" "[''a.md'', ''b.md'']"]
  by simp

section \<open>The configuration hook\<close>

text \<open>
  Claim C1. For every configuration, \<^verbatim>\<open>on_config\<close> sets \<^verbatim>\<open>config.copyright\<close> to the spec's
  template with the current year, as the clock gives it at the call, in the place of
  \<^verbatim>\<open>{YEAR}\<close>: the year is written in decimal, so that reading it back gives the year. When
  the year is 2024 the string is the template with \<^verbatim>\<open>2024\<close> in that place.
\<close>

theorem on_config_sets_copyright:
  "copyright (on_config now config kwargs) =
     Some (spec_copyright_template (str_int (year now))) \<and>
   read_int (str_int (year now)) = year now \<and>
   (year now = 2024 \<longrightarrow>
     copyright (on_config now config kwargs) =
       Some (''Copyright '' @ [CHR 0xA9] @
         '' 2024 ESPHome - A project from the <a target=\"_blank\" href=\"https://www.openhomefoundation.org/\">Open Home Foundation</a>''))"
  by (simp add: on_config_def spec_copyright_template_def read_int_str_int str_int_2024)

theorem on_config_sets_copyright_witness:
  "year example_now = 2024 \<and>
   copyright (on_config example_now \<lparr>copyright = None\<rparr> (Map.empty :: string \<rightharpoonup> pyval)) =
       Some (''Copyright '' @ [CHR 0xA9] @
         '' 2024 ESPHome - A project from the <a target=\"_blank\" href=\"https://www.openhomefoundation.org/\">Open Home Foundation</a>'')"
  using on_config_sets_copyright [of example_now "\<lparr>copyright = None\<rparr>"
      "Map.empty :: string \<rightharpoonup> pyval"]
  by (simp add: example_now_def on_config_def str_int_2024)

text \<open>
  Claim C6. Within a calendar year the hook is idempotent: two calls at which the clock gives
  the same year, on any two configurations, leave the same copyright string; and a second
  call on the configuration the first call left, in the same year, changes nothing.
\<close>

theorem on_config_same_year:
  assumes "year now1 = year now2"
  shows "copyright (on_config now1 config1 kwargs1) =
      copyright (on_config now2 config2 kwargs2) \<and>
    on_config now2 (on_config now1 config kwargs1) kwargs2 = on_config now1 config kwargs1"
  using assms by (simp add: on_config_def)

theorem on_config_same_year_witness:
  "year example_now = year example_later \<and> example_now \<noteq> example_later \<and>
   copyright (on_config example_now \<lparr>copyright = None\<rparr> (Map.empty :: string \<rightharpoonup> pyval)) =
     copyright (on_config example_later \<lparr>copyright = Some ''old''\<rparr>
       (Map.empty :: string \<rightharpoonup> pyval)) \<and>
   on_config example_later
       (on_config example_now \<lparr>copyright = None\<rparr> (Map.empty :: string \<rightharpoonup> pyval))
       (Map.empty :: string \<rightharpoonup> pyval) =
     on_config example_now \<lparr>copyright = None\<rparr> (Map.empty :: string \<rightharpoonup> pyval)"
proof -
  have y: "year example_now = year example_later"
    by (simp add: example_now_def example_later_def)
  have d: "example_now \<noteq> example_later"
    by (simp add: example_now_def example_later_def)
  show ?thesis
    using y d on_config_same_year [where ?now1.0 = example_now and ?now2.0 = example_later
        and ?config1.0 = "\<lparr>copyright = None\<rparr>"
        and ?kwargs1.0 = "Map.empty :: string \<rightharpoonup> pyval"
        and ?config2.0 = "\<lparr>copyright = Some ''old''\<rparr>"
        and ?kwargs2.0 = "Map.empty :: string \<rightharpoonup> pyval"
        and config = "\<lparr>copyright = None\<rparr>"]
    by simp
qed

text \<open>
  Claim C7. Across calendar years the hook is not deterministic: the year in the string is the
  one the clock gives at the call, so two calls at which the clock gives different years
  leave different copyright strings, whatever the configurations are.
\<close>

theorem on_config_differs_across_years:
  assumes "year now1 \<noteq> year now2"
  shows "copyright (on_config now1 config1 kwargs1) \<noteq>
    copyright (on_config now2 config2 kwargs2)"
proof
  assume "copyright (on_config now1 config1 kwargs1) =
    copyright (on_config now2 config2 kwargs2)"
  then have "str_int (year now1) = str_int (year now2)"
    by (simp add: on_config_def)
  then have "year now1 = year now2"
    by (rule str_int_inject)
  with assms show False by simp
qed

theorem on_config_differs_across_years_witness:
  "year example_now \<noteq> year example_next_year \<and>
   copyright (on_config example_now \<lparr>copyright = None\<rparr> (Map.empty :: string \<rightharpoonup> pyval)) \<noteq>
     copyright (on_config example_next_year \<lparr>copyright = None\<rparr>
       (Map.empty :: string \<rightharpoonup> pyval))"
proof -
  have y: "year example_now \<noteq> year example_next_year"
    by (simp add: example_now_def example_next_year_def)
  show ?thesis
    using y on_config_differs_across_years [OF y, of "\<lparr>copyright = None\<rparr>"
        "Map.empty :: string \<rightharpoonup> pyval" "\<lparr>copyright = None\<rparr>"
        "Map.empty :: string \<rightharpoonup> pyval"]
    by simp
qed

text \<open>
  Claim C10. The string the hook writes does not depend on what the configuration held: two
  configurations processed while the clock gives the same year end with the same copyright
  value, a configuration whose copyright was already set to any value ends as it would have
  otherwise, and nothing of a configuration but its copyright is touched (putting the old
  copyright back gives the old configuration).
\<close>

theorem on_config_ignores_prior_state:
  assumes "year now1 = year now2"
  shows "copyright (on_config now1 config1 kwargs1) =
      copyright (on_config now2 config2 kwargs2) \<and>
    on_config now1 (config1\<lparr>copyright := prior\<rparr>) kwargs1 = on_config now1 config1 kwargs1 \<and>
    (on_config now1 config1 kwargs1)\<lparr>copyright := copyright config1\<rparr> = config1 \<and>
    Config.more (on_config now1 config1 kwargs1) = Config.more config1"
  using assms by (simp add: on_config_def)

theorem on_config_ignores_prior_state_witness:
  "year example_now = year example_later \<and>
   copyright (on_config example_now
       \<lparr>copyright = None, \<dots> = ''ESPHome Developers''\<rparr>
       (Map.empty :: string \<rightharpoonup> pyval)) =
     copyright (on_config example_later \<lparr>copyright = Some ''x'', \<dots> = ''Other site''\<rparr>
       (Map.empty :: string \<rightharpoonup> pyval)) \<and>
   on_config example_now
       \<lparr>copyright = Some ''Copyright 1999 Somebody'', \<dots> = ''ESPHome Developers''\<rparr>
       (Map.empty :: string \<rightharpoonup> pyval) =
     on_config example_now \<lparr>copyright = None, \<dots> = ''ESPHome Developers''\<rparr>
       (Map.empty :: string \<rightharpoonup> pyval) \<and>
   Config.more (on_config example_now
       \<lparr>copyright = None, \<dots> = ''ESPHome Developers''\<rparr>
       (Map.empty :: string \<rightharpoonup> pyval)) = ''ESPHome Developers''"
proof -
  have y: "year example_now = year example_later"
    by (simp add: example_now_def example_later_def)
  show ?thesis
    using y on_config_ignores_prior_state [where ?now1.0 = example_now
        and ?now2.0 = example_later
        and ?config1.0 = "\<lparr>copyright = None, \<dots> = ''ESPHome Developers''\<rparr>"
        and prior = "Some ''Copyright 1999 Somebody''"
        and ?kwargs1.0 = "Map.empty :: string \<rightharpoonup> pyval"
        and ?config2.0 = "\<lparr>copyright = Some ''x'', \<dots> = ''Other site''\<rparr>"
        and ?kwargs2.0 = "Map.empty :: string \<rightharpoonup> pyval"]
    by simp
qed

end
